theory Spec2Isabelle
  imports Complex_Main
begin

section \<open>Python values, dictionaries and exceptions\<close>

text \<open>
  The pose parser works on untyped, JSON-like data: a raw frame is a dictionary whose
  values are numbers, strings and nested dictionaries. A dictionary is an association
  list in insertion order (its keys are distinct, lookup takes the first binding).
  Floating-point numbers are idealised as reals.
\<close>

datatype pyval =
    PNone
  | PBool bool
  | PInt int
  | PFloat real
  | PStr string
  | PList "pyval list"
  | PDict "(string \<times> pyval) list"

type_synonym pydict = "(string \<times> pyval) list"

text \<open>Every exception the modelled code can raise is a value of this type.\<close>

datatype error =
    JointError string
  | BlazePoseFrameError string
  | BlazePoseSequenceError string
  | KeyError string
  | TypeError
  | ValueError
  | AttributeError string
  | SyntaxError string

definition bind_err :: "error + 'a \<Rightarrow> ('a \<Rightarrow> error + 'b) \<Rightarrow> error + 'b" where
  "bind_err m f = (case m of Inl e \<Rightarrow> Inl e | Inr v \<Rightarrow> f v)"

text \<open>\<^verbatim>\<open>bool(v)\<close>: Python's truth value of a value.\<close>

fun py_truthy :: "pyval \<Rightarrow> bool" where
  "py_truthy PNone = False"
| "py_truthy (PBool b) = b"
| "py_truthy (PInt i) = (i \<noteq> 0)"
| "py_truthy (PFloat r) = (r \<noteq> 0)"
| "py_truthy (PStr s) = (s \<noteq> [])"
| "py_truthy (PList vs) = (vs \<noteq> [])"
| "py_truthy (PDict kvs) = (kvs \<noteq> [])"

fun starts_with :: "string \<Rightarrow> string \<Rightarrow> bool" where
  "starts_with [] hay = True"
| "starts_with (c # cs) [] = False"
| "starts_with (c # cs) (h # hs) = (c = h \<and> starts_with cs hs)"

fun is_substring :: "string \<Rightarrow> string \<Rightarrow> bool" where
  "is_substring needle [] = (needle = [])"
| "is_substring needle (h # hs) = (starts_with needle (h # hs) \<or> is_substring needle hs)"

text \<open>
  \<^verbatim>\<open>key in v\<close> for a string key: membership among a dictionary's keys, among a
  list's elements, substring test on a string, and a TypeError on anything else.
\<close>

fun py_contains :: "string \<Rightarrow> pyval \<Rightarrow> error + bool" where
  "py_contains k (PDict kvs) = Inr (k \<in> set (map fst kvs))"
| "py_contains k (PList vs) = Inr (PStr k \<in> set vs)"
| "py_contains k (PStr s) = Inr (is_substring k s)"
| "py_contains k PNone = Inl TypeError"
| "py_contains k (PBool b) = Inl TypeError"
| "py_contains k (PInt i) = Inl TypeError"
| "py_contains k (PFloat r) = Inl TypeError"

definition dict_getitem :: "pydict \<Rightarrow> string \<Rightarrow> error + pyval" where
  "dict_getitem d k = (case map_of d k of None \<Rightarrow> Inl (KeyError k) | Some v \<Rightarrow> Inr v)"

text \<open>
  \<^verbatim>\<open>v[key]\<close> for a string key: a dictionary looks the key up (KeyError when it is
  absent); strings and lists take integer indices only and every other value is not
  subscriptable, so they raise a TypeError.
\<close>

fun py_getitem :: "pyval \<Rightarrow> string \<Rightarrow> error + pyval" where
  "py_getitem (PDict kvs) k = dict_getitem kvs k"
| "py_getitem (PList vs) k = Inl TypeError"
| "py_getitem (PStr s) k = Inl TypeError"
| "py_getitem PNone k = Inl TypeError"
| "py_getitem (PBool b) k = Inl TypeError"
| "py_getitem (PInt i) k = Inl TypeError"
| "py_getitem (PFloat r) k = Inl TypeError"

text \<open>\<^verbatim>\<open>d[k] = v\<close> on a dictionary: replace in place, or append a new key.\<close>

fun dict_setitem :: "(string \<times> 'v) list \<Rightarrow> string \<Rightarrow> 'v \<Rightarrow> (string \<times> 'v) list" where
  "dict_setitem [] k v = [(k, v)]"
| "dict_setitem ((k', v') # d) k v =
     (if k' = k then (k, v) # d else (k', v') # dict_setitem d k v)"

section \<open>Joint\<close>

record Joint =
  joint_name :: string
  joint_x :: pyval
  joint_y :: pyval
  joint_z :: pyval
  joint_x_normalized :: pyval
  joint_y_normalized :: pyval
  joint_z_normalized :: pyval
  joint_image_dimensions :: pyval

definition joint_required_keys :: "string list" where
  "joint_required_keys =
     [''x'', ''y'', ''z'', ''x_normalized'', ''y_normalized'', ''z_normalized'',
      ''image_dimensions'']"

definition joint_error_message :: string where
  "joint_error_message = ''The required data is missing from the joint data dictionary.''"

text \<open>
  \<^verbatim>\<open>Joint.__init__(name, joint_data)\<close>. The guard is
  \<^verbatim>\<open>if not all([key in required_keys for key in joint_data])\<close>: it runs over the keys
  of \<^verbatim>\<open>joint_data\<close> and asks whether each is a required key. The seven reads that
  follow are in the source's order, each a possible KeyError.
\<close>

definition Joint_init :: "string \<Rightarrow> pydict \<Rightarrow> error + Joint" where
  "Joint_init name joint_data =
     (if \<not> list_all (\<lambda>key. key \<in> set joint_required_keys) (map fst joint_data)
      then Inl (JointError joint_error_message)
      else
        bind_err (dict_getitem joint_data ''image_dimensions'') (\<lambda>dims.
        bind_err (dict_getitem joint_data ''x'') (\<lambda>vx.
        bind_err (dict_getitem joint_data ''y'') (\<lambda>vy.
        bind_err (dict_getitem joint_data ''z'') (\<lambda>vz.
        bind_err (dict_getitem joint_data ''x_normalized'') (\<lambda>vxn.
        bind_err (dict_getitem joint_data ''y_normalized'') (\<lambda>vyn.
        bind_err (dict_getitem joint_data ''z_normalized'') (\<lambda>vzn.
          Inr \<lparr> joint_name = name,
                joint_x = vx, joint_y = vy, joint_z = vz,
                joint_x_normalized = vxn, joint_y_normalized = vyn,
                joint_z_normalized = vzn,
                joint_image_dimensions = dims \<rparr>))))))))"

section \<open>Angle\<close>

text \<open>
  The numpy calls of \<^verbatim>\<open>Angle\<close> are modelled over the reals: a float is a real
  number or nan. A vector is the tuple of its components.
\<close>

datatype fval = Fin real | NaN

type_synonym vec = "real list"

text \<open>\<^verbatim>\<open>np.linalg.norm(vector)\<close>: the Euclidean norm of a one-dimensional array.\<close>

definition linalg_norm :: "vec \<Rightarrow> real" where
  "linalg_norm v = sqrt (sum_list (map (\<lambda>c. c * c) v))"

text \<open>
  \<^verbatim>\<open>unit_vector\<close> is \<^verbatim>\<open>vector / np.linalg.norm(vector)\<close>. numpy does not raise on
  a zero norm: the norm is zero only when every component is zero, and each quotient
  \<open>0 / 0\<close> is nan.
\<close>

definition unit_vector :: "vec \<Rightarrow> fval list" where
  "unit_vector v =
     (if linalg_norm v = 0 then map (\<lambda>c. NaN) v
      else map (\<lambda>c. Fin (c / linalg_norm v)) v)"

fun fadd :: "fval \<Rightarrow> fval \<Rightarrow> fval" where
  "fadd (Fin a) (Fin b) = Fin (a + b)"
| "fadd a b = NaN"

fun fmul :: "fval \<Rightarrow> fval \<Rightarrow> fval" where
  "fmul (Fin a) (Fin b) = Fin (a * b)"
| "fmul a b = NaN"

fun dot_sum :: "fval list \<Rightarrow> fval list \<Rightarrow> fval" where
  "dot_sum (a # as) (b # bs) = fadd (fmul a b) (dot_sum as bs)"
| "dot_sum as bs = Fin 0"

text \<open>\<^verbatim>\<open>np.dot\<close> of two one-dimensional arrays; their lengths must agree.\<close>

definition np_dot :: "fval list \<Rightarrow> fval list \<Rightarrow> error + fval" where
  "np_dot a b = (if length a \<noteq> length b then Inl ValueError else Inr (dot_sum a b))"

fun np_clip :: "fval \<Rightarrow> real \<Rightarrow> real \<Rightarrow> fval" where
  "np_clip (Fin r) lo hi = Fin (min (max r lo) hi)"
| "np_clip NaN lo hi = NaN"

fun np_arccos :: "fval \<Rightarrow> fval" where
  "np_arccos (Fin r) = (if - 1 \<le> r \<and> r \<le> 1 then Fin (arccos r) else NaN)"
| "np_arccos NaN = NaN"

fun np_degrees :: "fval \<Rightarrow> fval" where
  "np_degrees (Fin r) = Fin (r * 180 / pi)"
| "np_degrees NaN = NaN"

record Angle =
  angle_name :: string
  vector_1 :: vec
  vector_2 :: vec
  angle_2d :: fval
  angle_3d :: fval
  angle_2d_radians :: fval
  angle_3d_radians :: fval
  angle_2d_degrees :: fval
  angle_3d_degrees :: fval

text \<open>
  \<^verbatim>\<open>angle_between(self, vector_1=None, vector_2=None)\<close>; the first two arguments of
  the model are \<^verbatim>\<open>self.vector_1\<close> and \<^verbatim>\<open>self.vector_2\<close>, the defaults of the other two.
\<close>

definition angle_between :: "vec \<Rightarrow> vec \<Rightarrow> vec option \<Rightarrow> vec option \<Rightarrow> error + fval" where
  "angle_between self_vector_1 self_vector_2 vector_1_arg vector_2_arg =
     (let v1 = (case vector_1_arg of None \<Rightarrow> self_vector_1 | Some v \<Rightarrow> v);
          v2 = (case vector_2_arg of None \<Rightarrow> self_vector_2 | Some v \<Rightarrow> v);
          v1_u = unit_vector v1;
          v2_u = unit_vector v2
      in bind_err (np_dot v1_u v2_u) (\<lambda>d. Inr (np_arccos (np_clip d (- 1) 1))))"

definition Angle_init :: "string \<Rightarrow> vec \<Rightarrow> vec \<Rightarrow> error + Angle" where
  "Angle_init name vector1 vector2 =
     bind_err (angle_between vector1 vector2 (Some (take 2 vector1)) (Some (take 2 vector2)))
       (\<lambda>a2d.
     bind_err (angle_between vector1 vector2 (Some (take 3 vector1)) (Some (take 3 vector2)))
       (\<lambda>a3d.
       Inr \<lparr> angle_name = name, vector_1 = vector1, vector_2 = vector2,
             angle_2d = a2d, angle_3d = a3d,
             angle_2d_radians = a2d, angle_3d_radians = a3d,
             angle_2d_degrees = np_degrees a2d, angle_3d_degrees = np_degrees a3d \<rparr>))"

section \<open>BlazePoseFrame\<close>

text \<open>
  The attribute \<^verbatim>\<open>angles\<close> starts as the empty dictionary and is later assigned
  whatever \<^verbatim>\<open>generate_angle_measurements\<close> returns, so it holds a dictionary or None.
\<close>

datatype angles_val = AnglesDict "(string \<times> Angle) list" | AnglesNone

type_synonym point3 = "pyval \<times> pyval \<times> pyval"
type_synonym segment = "point3 \<times> point3"

record BlazePoseFrame =
  joints :: "(string \<times> Joint) list"
  angles :: angles_val
  frame_number :: pyval
  has_joint_positions :: bool
  image_dimensions :: pyval
  sequence_id :: pyval
  sequence_source :: pyval
  joint_positions_raw :: "pyval option"
  plumb_line_vector :: "(segment \<times> segment) option"

definition joint_position_names :: "string list" where
  "joint_position_names =
     [''nose'', ''left_eye_inner'', ''left_eye'', ''left_eye_outer'', ''right_eye_inner'',
      ''right_eye'', ''right_eye_outer'', ''left_ear'', ''right_ear'', ''mouth_left'',
      ''mouth_right'', ''left_shoulder'', ''right_shoulder'', ''left_elbow'',
      ''right_elbow'', ''left_wrist'', ''right_wrist'', ''left_pinky'', ''right_pinky'',
      ''left_index'', ''right_index'', ''left_thumb'', ''right_thumb'', ''left_hip'',
      ''right_hip'', ''left_knee'', ''right_knee'', ''left_ankle'', ''right_anle'',
      ''left_heel'', ''right_heel'', ''left_foot_index'', ''right_foot_index'']"

definition required_joint_keys :: "string list" where
  "required_joint_keys =
     [''x'', ''y'', ''z'', ''x_normalized'', ''y_normalized'', ''z_normalized'']"

text \<open>
  \<^verbatim>\<open>validate_joint_position_data\<close>: the inner loop over the coordinate keys of one
  joint, and the outer loop over the joint names.
\<close>

fun validate_joint_keys :: "pyval \<Rightarrow> string \<Rightarrow> string list \<Rightarrow> error + unit" where
  "validate_joint_keys joint_positions joint [] = Inr ()"
| "validate_joint_keys joint_positions joint (key # keys) =
     bind_err (py_getitem joint_positions joint) (\<lambda>joint_record.
     bind_err (py_contains key joint_record) (\<lambda>present.
       if present then validate_joint_keys joint_positions joint keys
       else Inl (BlazePoseFrameError (key @ '' missing from '' @ joint @ '' position data''))))"

fun validate_joint_names :: "pyval \<Rightarrow> string list \<Rightarrow> error + bool" where
  "validate_joint_names joint_positions [] = Inr True"
| "validate_joint_names joint_positions (joint # names) =
     bind_err (py_contains joint joint_positions) (\<lambda>present.
       if present then
         bind_err (validate_joint_keys joint_positions joint required_joint_keys)
           (\<lambda>_. validate_joint_names joint_positions names)
       else Inl (BlazePoseFrameError (joint @ '' missing from joint positions dict'')))"

definition validate_joint_position_data :: "pyval \<Rightarrow> error + bool" where
  "validate_joint_position_data joint_positions =
     validate_joint_names joint_positions joint_position_names"

text \<open>\<^verbatim>\<open>joints_raw[joint][key]\<close>\<close>

definition raw_coordinate :: "pyval \<Rightarrow> string \<Rightarrow> string \<Rightarrow> error + pyval" where
  "raw_coordinate joints_raw joint key =
     bind_err (py_getitem joints_raw joint) (\<lambda>joint_record. py_getitem joint_record key)"

fun set_joint_positions_loop ::
  "pyval \<Rightarrow> pyval \<Rightarrow> string list \<Rightarrow> (string \<times> Joint) list \<Rightarrow> error + (string \<times> Joint) list"
where
  "set_joint_positions_loop joints_raw dims [] joint_positions = Inr joint_positions"
| "set_joint_positions_loop joints_raw dims (joint # names) joint_positions =
     bind_err (raw_coordinate joints_raw joint ''x'') (\<lambda>vx.
     bind_err (raw_coordinate joints_raw joint ''y'') (\<lambda>vy.
     bind_err (raw_coordinate joints_raw joint ''z'') (\<lambda>vz.
     bind_err (raw_coordinate joints_raw joint ''x_normalized'') (\<lambda>vxn.
     bind_err (raw_coordinate joints_raw joint ''y_normalized'') (\<lambda>vyn.
     bind_err (raw_coordinate joints_raw joint ''z_normalized'') (\<lambda>vzn.
     bind_err (Joint_init joint
                 [(''image_dimensions'', dims), (''x'', vx), (''y'', vy), (''z'', vz),
                  (''x_normalized'', vxn), (''y_normalized'', vyn),
                  (''z_normalized'', vzn)]) (\<lambda>j.
       set_joint_positions_loop joints_raw dims names
         (dict_setitem joint_positions joint j))))))))"

definition set_joint_positions :: "BlazePoseFrame \<Rightarrow> error + (string \<times> Joint) list" where
  "set_joint_positions self =
     (if \<not> has_joint_positions self
      then Inl (BlazePoseFrameError ''There are no joint positions to set'')
      else case joint_positions_raw self of
             None \<Rightarrow> Inl (AttributeError ''joint_positions_raw'')
           | Some joints_raw \<Rightarrow>
               set_joint_positions_loop joints_raw (image_dimensions self)
                 joint_position_names [])"

text \<open>
  \<^verbatim>\<open>get_plumbline_vector\<close>. Three statements of its body,
  \<^verbatim>\<open>x1_normalized =self.joints['left_shoulder'].x_normalized + self.joints['right_shoulder'].x_normalized)/2\<close>
  and the two after it for y and z, close a parenthesis that was never opened.
  Python refuses the text with \<^verbatim>\<open>SyntaxError: unmatched ')'\<close>, so the function has no
  body that could run and no call of it returns a value. The model keeps the three
  lines as text, with the scan that finds the unmatched bracket, and gives the function
  the only outcome it has.
\<close>

definition plumbline_shoulder_lines :: "string list" where
  "plumbline_shoulder_lines =
     [''x1_normalized =self.joints['left_shoulder'].x_normalized + self.joints['right_shoulder'].x_normalized)/2'',
      ''y1_normalized =self.joints['left_shoulder'].y_normalized + self.joints['right_shoulder'].y_normalized)/2'',
      ''z1_normalized =self.joints['left_shoulder'].z_normalized + self.joints['right_shoulder'].z_normalized)/2'']"

definition plumbline_hip_lines :: "string list" where
  "plumbline_hip_lines =
     [''x2_normalized = (self.joints['left_hip'].x_normalized + self.joints['right_hip'].x_normalized)/2'',
      ''y2_normalized = (self.joints['left_hip'].y_normalized + self.joints['right_hip'].y_normalized)/2'',
      ''z2_normalized = (self.joints['left_hip'].z_normalized + self.joints['right_hip'].z_normalized)/2'']"

text \<open>
  The round brackets of a line, scanned left to right with the number of brackets
  open so far: None as soon as a bracket closes that was never opened, else the number
  left open at the end.
\<close>

fun bracket_scan :: "nat \<Rightarrow> string \<Rightarrow> nat option" where
  "bracket_scan depth [] = Some depth"
| "bracket_scan depth (c # cs) =
     (if c = CHR ''('' then bracket_scan (Suc depth) cs
      else if c = CHR '')'' then
        (case depth of 0 \<Rightarrow> None | Suc d \<Rightarrow> bracket_scan d cs)
      else bracket_scan depth cs)"

definition unmatched_bracket_message :: string where
  "unmatched_bracket_message = ''unmatched )''"

definition get_plumbline_vector :: "BlazePoseFrame \<Rightarrow> error + (segment \<times> segment)" where
  "get_plumbline_vector self = Inl (SyntaxError unmatched_bracket_message)"

text \<open>
  \<^verbatim>\<open>generate_angle_measurements\<close> stores the plumb line and has no return statement:
  what it returns is None. Its second result is that returned value. The plumb-line
  function is a parameter, so that what is proved of the callers does not rest on the
  broken body above; the code itself is the instance at \<open>get_plumbline_vector\<close>.
\<close>

definition generate_angle_measurements_with ::
  "(BlazePoseFrame \<Rightarrow> error + (segment \<times> segment)) \<Rightarrow> BlazePoseFrame
     \<Rightarrow> error + (BlazePoseFrame \<times> angles_val)"
where
  "generate_angle_measurements_with plumbline self =
     (if \<not> has_joint_positions self
      then Inl (BlazePoseFrameError ''There are no joint data to generate angles from'')
      else bind_err (plumbline self) (\<lambda>pl.
             Inr (self\<lparr>plumb_line_vector := Some pl\<rparr>, AnglesNone)))"

definition generate_angle_measurements ::
  "BlazePoseFrame \<Rightarrow> error + (BlazePoseFrame \<times> angles_val)" where
  "generate_angle_measurements = generate_angle_measurements_with get_plumbline_vector"

text \<open>\<^verbatim>\<open>BlazePoseFrame.__init__(frame_data)\<close>, the reads in the source's order.\<close>

definition BlazePoseFrame_init_with ::
  "(BlazePoseFrame \<Rightarrow> error + (segment \<times> segment)) \<Rightarrow> pydict \<Rightarrow> error + BlazePoseFrame"
where
  "BlazePoseFrame_init_with plumbline frame_data =
     bind_err (dict_getitem frame_data ''frame_number'') (\<lambda>fnum.
     bind_err (dict_getitem frame_data ''joint_positions'') (\<lambda>jp.
     bind_err (dict_getitem frame_data ''image_dimensions'') (\<lambda>dims.
     bind_err (dict_getitem frame_data ''sequence_id'') (\<lambda>sid.
     bind_err (dict_getitem frame_data ''sequence_source'') (\<lambda>src.
       let self = \<lparr> joints = [], angles = AnglesDict [],
                    frame_number = fnum, has_joint_positions = py_truthy jp,
                    image_dimensions = dims, sequence_id = sid, sequence_source = src,
                    joint_positions_raw = None, plumb_line_vector = None \<rparr>
       in if has_joint_positions self then
            bind_err (validate_joint_position_data jp) (\<lambda>_.
            let self1 = self\<lparr>joint_positions_raw := Some jp\<rparr> in
            bind_err (set_joint_positions self1) (\<lambda>js.
            let self2 = self1\<lparr>joints := js\<rparr> in
            bind_err (generate_angle_measurements_with plumbline self2) (\<lambda>(self3, returned).
              Inr (self3\<lparr>angles := returned\<rparr>))))
          else Inr self)))))"

definition BlazePoseFrame_init :: "pydict \<Rightarrow> error + BlazePoseFrame" where
  "BlazePoseFrame_init = BlazePoseFrame_init_with get_plumbline_vector"

text \<open>\<^verbatim>\<open>self.joints[jname].attr\<close>\<close>

definition joint_attr :: "BlazePoseFrame \<Rightarrow> string \<Rightarrow> (Joint \<Rightarrow> pyval) \<Rightarrow> error + pyval" where
  "joint_attr self jname attr =
     (case map_of (joints self) jname of
        None \<Rightarrow> Inl (KeyError jname)
      | Some j \<Rightarrow> Inr (attr j))"

definition get_vector :: "BlazePoseFrame \<Rightarrow> string \<Rightarrow> string \<Rightarrow> error + (segment \<times> segment)" where
  "get_vector self joint_name1 joint_name2 =
     bind_err (joint_attr self joint_name1 joint_x) (\<lambda>x1.
     bind_err (joint_attr self joint_name1 joint_y) (\<lambda>y1.
     bind_err (joint_attr self joint_name1 joint_z) (\<lambda>z1.
     bind_err (joint_attr self joint_name1 joint_x) (\<lambda>x2.
     bind_err (joint_attr self joint_name1 joint_y) (\<lambda>y2.
     bind_err (joint_attr self joint_name1 joint_z) (\<lambda>z2.
     let vector = ((x1, y1, z1), (x2, y2, z2)) in
     bind_err (joint_attr self joint_name2 joint_x) (\<lambda>x1_normalized.
     bind_err (joint_attr self joint_name2 joint_y) (\<lambda>y1_normalized.
     bind_err (joint_attr self joint_name2 joint_z) (\<lambda>z1_normalized.
     bind_err (joint_attr self joint_name2 joint_x) (\<lambda>x2_normalized.
     bind_err (joint_attr self joint_name2 joint_y) (\<lambda>y2_normalized.
     bind_err (joint_attr self joint_name2 joint_z) (\<lambda>z2_normalized.
     let vector_normalized =
           ((x1_normalized, y1_normalized, z1_normalized),
            (x2_normalized, y2_normalized, z2_normalized))
     in Inr (vector, vector_normalized)))))))))))))"

section \<open>BlazePoseSequence\<close>

record BlazePoseSequence =
  sequence_joint_positions :: "string list"
  sequence_data :: "pydict list"
  frames :: "BlazePoseFrame list"

definition sequence_required_keys :: "string list" where
  "sequence_required_keys =
     [''sequence_id'', ''sequence_source'', ''frame_number'', ''image_dimensions'',
      ''joint_positions'']"

fun check_required_keys :: "string list \<Rightarrow> pydict \<Rightarrow> error + unit" where
  "check_required_keys [] frame_data = Inr ()"
| "check_required_keys (key # keys) frame_data =
     (if key \<notin> set (map fst frame_data)
      then Inl (BlazePoseSequenceError
                  (''Validation error - '' @ key @ '' is missing from frame data''))
      else check_required_keys keys frame_data)"

fun check_joint_names :: "string list \<Rightarrow> pyval \<Rightarrow> error + unit" where
  "check_joint_names [] joint_positions = Inr ()"
| "check_joint_names (pos # rest) joint_positions =
     bind_err (py_contains pos joint_positions) (\<lambda>present.
       if \<not> present
       then Inl (BlazePoseSequenceError
                   (''Validation error - '' @ pos @ '' is missing from joint position data''))
       else check_joint_names rest joint_positions)"

text \<open>
  \<^verbatim>\<open>validate_pose_schema(self, frame_data)\<close>; the first argument is
  \<^verbatim>\<open>self.joint_positions\<close>, the list of joint names the constructor stores (the same 33
  names as \<open>joint_position_names\<close>, written out a second time in the source).
\<close>

definition validate_pose_schema :: "string list \<Rightarrow> pydict \<Rightarrow> error + bool" where
  "validate_pose_schema self_joint_positions frame_data =
     bind_err (check_required_keys sequence_required_keys frame_data) (\<lambda>_.
     bind_err (dict_getitem frame_data ''joint_positions'') (\<lambda>joint_positions.
       if \<not> py_truthy joint_positions then Inr True
       else bind_err (check_joint_names self_joint_positions joint_positions)
              (\<lambda>_. Inr True)))"

fun validate_frames :: "string list \<Rightarrow> pydict list \<Rightarrow> error + unit" where
  "validate_frames names [] = Inr ()"
| "validate_frames names (frame # rest) =
     bind_err (validate_pose_schema names frame) (\<lambda>valid.
       if \<not> valid then Inl (BlazePoseSequenceError ''Validation error!'')
       else validate_frames names rest)"

definition BlazePoseSequence_init :: "pydict list \<Rightarrow> error + BlazePoseSequence" where
  "BlazePoseSequence_init sequence =
     bind_err (validate_frames joint_position_names sequence) (\<lambda>_.
       Inr \<lparr> sequence_joint_positions = joint_position_names,
             sequence_data = sequence, frames = [] \<rparr>)"




section \<open>Auxiliary predicates and example inputs\<close>

fun is_dict :: "pyval \<Rightarrow> bool" where
  "is_dict (PDict kvs) = True"
| "is_dict v = False"

text \<open>A frame in which no body was detected, and one that lacks its frame number.\<close>

definition empty_frame :: pydict where
  "empty_frame =
     [(''sequence_id'', PInt 1677107027968938000),
      (''sequence_source'', PStr ''mediapipe''),
      (''frame_number'', PInt 43),
      (''image_dimensions'', PDict [(''height'', PInt 1080), (''width'', PInt 1920)]),
      (''joint_positions'', PDict [])]"

definition frame_without_number :: pydict where
  "frame_without_number =
     [(''sequence_id'', PInt 1677107027968938000),
      (''sequence_source'', PStr ''mediapipe''),
      (''image_dimensions'', PDict [(''height'', PInt 1080), (''width'', PInt 1920)]),
      (''joint_positions'', PDict [])]"

text \<open>Frames with all 33 joints: every record complete, and one with a gap.\<close>

definition complete_joint_record :: pyval where
  "complete_joint_record =
     PDict [(''x'', PFloat (1 / 2)), (''y'', PFloat (1 / 4)), (''z'', PFloat (1 / 8)),
            (''x_normalized'', PFloat 960), (''y_normalized'', PFloat 270),
            (''z_normalized'', PFloat 240)]"

definition frame_with_joints :: "(string \<Rightarrow> pyval) \<Rightarrow> pydict" where
  "frame_with_joints record_of =
     [(''sequence_id'', PInt 1677107027968938000),
      (''sequence_source'', PStr ''mediapipe''),
      (''frame_number'', PInt 43),
      (''image_dimensions'', PDict [(''height'', PInt 1080), (''width'', PInt 1920)]),
      (''joint_positions'', PDict (map (\<lambda>n. (n, record_of n)) joint_position_names))]"

definition complete_frame :: pydict where
  "complete_frame = frame_with_joints (\<lambda>n. complete_joint_record)"

definition left_knee_record :: pyval where
  "left_knee_record =
     PDict [(''x'', PFloat (1 / 2)), (''y'', PFloat (1 / 4)), (''z'', PFloat (1 / 8)),
            (''x_normalized'', PFloat 960), (''y_normalized'', PFloat 270)]"

definition frame_left_knee_missing_z :: pydict where
  "frame_left_knee_missing_z =
     frame_with_joints (\<lambda>n. if n = ''left_knee'' then left_knee_record
                             else complete_joint_record)"



text \<open>A frame object with its 33 joints, the left elbow apart from the others.\<close>

definition example_joint :: "string \<Rightarrow> Joint" where
  "example_joint n =
     (if n = ''left_elbow''
      then \<lparr> joint_name = n, joint_x = PFloat 4, joint_y = PFloat 5, joint_z = PFloat 6,
             joint_x_normalized = PFloat 40, joint_y_normalized = PFloat 50,
             joint_z_normalized = PFloat 60,
             joint_image_dimensions = PDict [(''height'', PInt 10), (''width'', PInt 10)] \<rparr>
      else \<lparr> joint_name = n, joint_x = PFloat 1, joint_y = PFloat 2, joint_z = PFloat 3,
             joint_x_normalized = PFloat 10, joint_y_normalized = PFloat 20,
             joint_z_normalized = PFloat 30,
             joint_image_dimensions = PDict [(''height'', PInt 10), (''width'', PInt 10)] \<rparr>)"

definition example_pose :: BlazePoseFrame where
  "example_pose =
     \<lparr> joints = map (\<lambda>n. (n, example_joint n)) joint_position_names,
       angles = AnglesNone, frame_number = PInt 43, has_joint_positions = True,
       image_dimensions = PDict [(''height'', PInt 10), (''width'', PInt 10)],
       sequence_id = PInt 1677107027968938000, sequence_source = PStr ''mediapipe'',
       joint_positions_raw =
         Some (PDict (map (\<lambda>n. (n, PDict [(''x'', joint_x (example_joint n)),
                                            (''y'', joint_y (example_joint n)),
                                            (''z'', joint_z (example_joint n)),
                                            (''x_normalized'', joint_x_normalized (example_joint n)),
                                            (''y_normalized'', joint_y_normalized (example_joint n)),
                                            (''z_normalized'', joint_z_normalized (example_joint n))]))
                      joint_position_names)),
       plumb_line_vector = None \<rparr>"

section \<open>The angle of the specification\<close>

text \<open>
  The specification's words for the angle calculator, over the reals: the angle between
  two vectors is the arccos of the dot product of their unit vectors, the dot product
  clamped to \<open>[-1, 1]\<close> first. These three definitions follow the specification, not
  the code; the code's \<open>angle_between\<close> is compared with them below.
\<close>

definition spec_dot :: "vec \<Rightarrow> vec \<Rightarrow> real" where
  "spec_dot a b = (\<Sum>(x, y)\<leftarrow>zip a b. x * y)"

definition spec_unit :: "vec \<Rightarrow> vec" where
  "spec_unit v = map (\<lambda>c. c / sqrt (\<Sum>c\<leftarrow>v. c\<^sup>2)) v"

definition spec_angle :: "vec \<Rightarrow> vec \<Rightarrow> real" where
  "spec_angle u v = arccos (max (- 1) (min 1 (spec_dot (spec_unit u) (spec_unit v))))"

section \<open>Properties of Joint construction\<close>

lemma bind_err_Inl [simp]: "bind_err (Inl e) f = Inl e"
  by (simp add: bind_err_def)

lemma bind_err_Inr [simp]: "bind_err (Inr v) f = f v"
  by (simp add: bind_err_def)

lemma getitem_step:
  "bind_err (dict_getitem d k) f =
     (case map_of d k of None \<Rightarrow> Inl (KeyError k) | Some v \<Rightarrow> f v)"
  by (simp add: dict_getitem_def split: option.splits)

text \<open>Once the guard has passed, the constructor is seven reads in a row.\<close>

lemma Joint_init_reads:
  assumes "list_all (\<lambda>key. key \<in> set joint_required_keys) (map fst joint_data)"
  shows "Joint_init name joint_data =
    (case map_of joint_data ''image_dimensions'' of
       None \<Rightarrow> Inl (KeyError ''image_dimensions'') | Some dims \<Rightarrow>
     case map_of joint_data ''x'' of None \<Rightarrow> Inl (KeyError ''x'') | Some vx \<Rightarrow>
     case map_of joint_data ''y'' of None \<Rightarrow> Inl (KeyError ''y'') | Some vy \<Rightarrow>
     case map_of joint_data ''z'' of None \<Rightarrow> Inl (KeyError ''z'') | Some vz \<Rightarrow>
     case map_of joint_data ''x_normalized'' of
       None \<Rightarrow> Inl (KeyError ''x_normalized'') | Some vxn \<Rightarrow>
     case map_of joint_data ''y_normalized'' of
       None \<Rightarrow> Inl (KeyError ''y_normalized'') | Some vyn \<Rightarrow>
     case map_of joint_data ''z_normalized'' of
       None \<Rightarrow> Inl (KeyError ''z_normalized'') | Some vzn \<Rightarrow>
         Inr \<lparr> joint_name = name,
               joint_x = vx, joint_y = vy, joint_z = vz,
               joint_x_normalized = vxn, joint_y_normalized = vyn,
               joint_z_normalized = vzn,
               joint_image_dimensions = dims \<rparr>)"
  unfolding Joint_init_def getitem_step using assms by simp

text \<open>
  C10. A joint record that holds a key outside the seven required ones is refused with
  a JointError, whatever else it holds (in particular when all seven required keys
  are present).
\<close>

theorem Joint_init_rejects_extra_key:
  assumes "k \<in> set (map fst joint_data)" and "k \<notin> set joint_required_keys"
  shows "Joint_init name joint_data = Inl (JointError joint_error_message)"
proof -
  from assms have "\<not> list_all (\<lambda>key. key \<in> set joint_required_keys) (map fst joint_data)"
    by (auto simp: list_all_iff)
  then show ?thesis
    by (simp add: Joint_init_def)
qed

theorem Joint_init_rejects_extra_key_witness:
  "Joint_init ''nose''
     [(''image_dimensions'', PDict [(''height'', PInt 500), (''width'', PInt 1000)]),
      (''x'', PFloat 1), (''y'', PFloat 2), (''z'', PFloat 3),
      (''x_normalized'', PFloat 10), (''y_normalized'', PFloat 20),
      (''z_normalized'', PFloat 30), (''visibility'', PFloat 1)]
   = Inl (JointError joint_error_message)"
  by (rule Joint_init_rejects_extra_key [where k = "''visibility''"])
     (simp_all add: joint_required_keys_def)

text \<open>
  C2. The guard of the constructor does not look for missing keys: a record whose keys
  are all required ones passes it, and the first read of an absent key raises a
  KeyError, not a JointError.
\<close>

theorem Joint_init_missing_key_is_KeyError:
  assumes "set (map fst joint_data) \<subseteq> set joint_required_keys"
    and "k \<in> set joint_required_keys" and "k \<notin> set (map fst joint_data)"
  shows "\<exists>k' \<in> set joint_required_keys. Joint_init name joint_data = Inl (KeyError k')"
proof -
  from assms(1) have guard:
    "list_all (\<lambda>key. key \<in> set joint_required_keys) (map fst joint_data)"
    by (auto simp: list_all_iff)
  have absent: "map_of joint_data k = None"
    using assms(3) by (simp add: map_of_eq_None_iff)
  from assms(2) have k_cases:
    "k = ''x'' \<or> k = ''y'' \<or> k = ''z'' \<or> k = ''x_normalized'' \<or> k = ''y_normalized''
      \<or> k = ''z_normalized'' \<or> k = ''image_dimensions''"
    by (simp add: joint_required_keys_def)
  show ?thesis
    unfolding Joint_init_reads [OF guard] joint_required_keys_def
    using absent k_cases
    by (elim disjE; simp split: option.splits)
qed

theorem Joint_init_missing_key_witness:
  "Joint_init ''nose'' [] = Inl (KeyError ''image_dimensions'')"
  using Joint_init_missing_key_is_KeyError [of "[]" "''x''" "''nose''"]
  by (simp add: Joint_init_def joint_required_keys_def dict_getitem_def)

section \<open>Properties of BlazePoseFrame construction\<close>

lemma map_of_present: "k \<in> set (map fst d) \<Longrightarrow> \<exists>v. map_of d k = Some v"
  by (cases "map_of d k") (auto simp: map_of_eq_None_iff)

lemma required_keys_present:
  assumes "set sequence_required_keys \<subseteq> set (map fst frame_data)"
  shows "\<exists>fnum jp dims sid src.
           map_of frame_data ''frame_number'' = Some fnum \<and>
           map_of frame_data ''joint_positions'' = Some jp \<and>
           map_of frame_data ''image_dimensions'' = Some dims \<and>
           map_of frame_data ''sequence_id'' = Some sid \<and>
           map_of frame_data ''sequence_source'' = Some src"
proof -
  have "''frame_number'' \<in> set (map fst frame_data)"
       "''joint_positions'' \<in> set (map fst frame_data)"
       "''image_dimensions'' \<in> set (map fst frame_data)"
       "''sequence_id'' \<in> set (map fst frame_data)"
       "''sequence_source'' \<in> set (map fst frame_data)"
    using assms by (auto simp: sequence_required_keys_def)
  then show ?thesis
    by (meson map_of_present)
qed

text \<open>A frame without joint positions is built by the five reads alone.\<close>

lemma BlazePoseFrame_init_with_no_joints:
  assumes "set sequence_required_keys \<subseteq> set (map fst frame_data)"
    and "map_of frame_data ''joint_positions'' = Some jp" and "\<not> py_truthy jp"
  shows "\<exists>f. BlazePoseFrame_init_with plumbline frame_data = Inr f \<and>
             \<not> has_joint_positions f \<and> joints f = [] \<and> angles f = AnglesDict [] \<and>
             map_of frame_data ''frame_number'' = Some (frame_number f)"
proof -
  from required_keys_present [OF assms(1)] assms(2) obtain fnum dims sid src where
    "map_of frame_data ''frame_number'' = Some fnum"
    "map_of frame_data ''joint_positions'' = Some jp"
    "map_of frame_data ''image_dimensions'' = Some dims"
    "map_of frame_data ''sequence_id'' = Some sid"
    "map_of frame_data ''sequence_source'' = Some src"
    by auto
  then show ?thesis
    using assms(3) by (simp add: BlazePoseFrame_init_with_def getitem_step)
qed

text \<open>
  C9. A raw frame record that has the five top-level keys and an empty
  \<^verbatim>\<open>joint_positions\<close> dictionary is built without an error: the frame has
  \<^verbatim>\<open>has_joint_positions == False\<close>, no joints and an empty angles dictionary.
\<close>

theorem BlazePoseFrame_init_empty_joint_positions:
  assumes "set sequence_required_keys \<subseteq> set (map fst frame_data)"
    and "map_of frame_data ''joint_positions'' = Some (PDict [])"
  shows "\<exists>f. BlazePoseFrame_init frame_data = Inr f \<and>
             has_joint_positions f = False \<and> joints f = [] \<and> angles f = AnglesDict []"
  using BlazePoseFrame_init_with_no_joints [OF assms, of get_plumbline_vector]
  by (auto simp: BlazePoseFrame_init_def)

theorem BlazePoseFrame_init_empty_joint_positions_witness:
  "BlazePoseFrame_init empty_frame =
     Inr \<lparr> joints = [], angles = AnglesDict [], frame_number = PInt 43,
           has_joint_positions = False,
           image_dimensions = PDict [(''height'', PInt 1080), (''width'', PInt 1920)],
           sequence_id = PInt 1677107027968938000, sequence_source = PStr ''mediapipe'',
           joint_positions_raw = None, plumb_line_vector = None \<rparr>"
  using BlazePoseFrame_init_empty_joint_positions [of empty_frame]
  by (simp add: empty_frame_def sequence_required_keys_def BlazePoseFrame_init_def
      BlazePoseFrame_init_with_def getitem_step)

section \<open>Properties of BlazePoseSequence construction\<close>

lemma validate_pose_schema_True:
  assumes "validate_pose_schema names frame_data = Inr b"
  shows "b"
proof (cases "check_required_keys sequence_required_keys frame_data")
  case (Inl e)
  with assms show ?thesis
    by (simp add: validate_pose_schema_def)
next
  case (Inr u)
  show ?thesis
  proof (cases "dict_getitem frame_data ''joint_positions''")
    case (Inl e)
    with assms Inr show ?thesis
      by (simp add: validate_pose_schema_def)
  next
    case jp: (Inr jp)
    show ?thesis
    proof (cases "check_joint_names names jp")
      case (Inl e)
      with assms Inr jp show ?thesis
        by (simp add: validate_pose_schema_def split: if_splits)
    next
      case ok: (Inr w)
      with assms Inr jp show ?thesis
        by (simp add: validate_pose_schema_def split: if_splits)
    qed
  qed
qed

lemma validate_frames_first_invalid:
  assumes "\<exists>fd \<in> set sequence. validate_pose_schema names fd \<noteq> Inr True"
  shows "\<exists>pre bad post e. sequence = pre @ bad # post \<and>
           list_all (\<lambda>fd. validate_pose_schema names fd = Inr True) pre \<and>
           validate_pose_schema names bad = Inl e \<and>
           validate_frames names sequence = Inl e"
  using assms
proof (induction sequence)
  case Nil
  then show ?case by simp
next
  case (Cons fd rest)
  show ?case
  proof (cases "validate_pose_schema names fd")
    case (Inl e)
    then show ?thesis
      by (intro exI [where x = "[]"] exI [where x = fd] exI [where x = rest]
                exI [where x = e]) simp
  next
    case (Inr b)
    have ok: "validate_pose_schema names fd = Inr True"
      using validate_pose_schema_True [OF Inr] Inr by simp
    with Cons.prems have "\<exists>fd \<in> set rest. validate_pose_schema names fd \<noteq> Inr True"
      by auto
    from Cons.IH [OF this] obtain pre bad post e where
      *: "rest = pre @ bad # post"
         "list_all (\<lambda>fd. validate_pose_schema names fd = Inr True) pre"
         "validate_pose_schema names bad = Inl e"
         "validate_frames names rest = Inl e"
      by blast
    then show ?thesis
      using ok
      by (intro exI [where x = "fd # pre"] exI [where x = bad] exI [where x = post]
                exI [where x = e]) simp
  qed
qed

lemma check_required_keys_error:
  "check_required_keys keys frame_data = Inl e \<Longrightarrow> \<exists>msg. e = BlazePoseSequenceError msg"
  by (induction keys) (auto split: if_splits)

lemma check_joint_names_error:
  "check_joint_names names (PDict kvs) = Inl e \<Longrightarrow> \<exists>msg. e = BlazePoseSequenceError msg"
  by (induction names) (auto split: if_splits)

lemma check_required_keys_ok:
  "check_required_keys keys frame_data = Inr u \<Longrightarrow> set keys \<subseteq> set (map fst frame_data)"
  by (induction keys) (auto split: if_splits)

lemma validate_pose_schema_unfold:
  assumes "check_required_keys sequence_required_keys frame_data = Inr u"
    and "map_of frame_data ''joint_positions'' = Some jp"
  shows "validate_pose_schema names frame_data =
      (if \<not> py_truthy jp then Inr True
       else bind_err (check_joint_names names jp) (\<lambda>_. Inr True))"
  unfolding validate_pose_schema_def getitem_step assms by simp

lemma is_dict_PDict: "is_dict jp \<Longrightarrow> \<exists>kvs. jp = PDict kvs"
  by (cases jp) simp_all

lemma validate_pose_schema_error:
  assumes "validate_pose_schema names frame_data = Inl e"
    and "\<And>jp. map_of frame_data ''joint_positions'' = Some jp \<Longrightarrow> is_dict jp"
  shows "\<exists>msg. e = BlazePoseSequenceError msg"
proof (cases "check_required_keys sequence_required_keys frame_data")
  case (Inl e')
  with assms(1) have "e = e'"
    by (simp add: validate_pose_schema_def)
  with Inl have "check_required_keys sequence_required_keys frame_data = Inl e"
    by simp
  then show ?thesis
    by (rule check_required_keys_error)
next
  case (Inr u)
  from check_required_keys_ok [OF Inr] have "''joint_positions'' \<in> set (map fst frame_data)"
    by (simp add: sequence_required_keys_def)
  from map_of_present [OF this] obtain jp where
    jp: "map_of frame_data ''joint_positions'' = Some jp" ..
  from is_dict_PDict [OF assms(2) [OF jp]] obtain kvs where kvs: "jp = PDict kvs" ..
  note unf = validate_pose_schema_unfold [OF Inr jp, of names]
  from assms(1) have "check_joint_names names jp = Inl e"
    unfolding unf by (cases "check_joint_names names jp") (simp_all split: if_splits)
  then have "check_joint_names names (PDict kvs) = Inl e"
    by (simp add: kvs)
  then show ?thesis
    by (rule check_joint_names_error)
qed

text \<open>
  C7. When some entry of the input list fails validation, the construction of the
  sequence fails as a whole: the entries before the first invalid one pass, the error
  raised is the one validation raised on that entry, and no sequence value (hence no
  \<^verbatim>\<open>sequence_data\<close> and no \<^verbatim>\<open>frames\<close>) is produced. The error is a
  BlazePoseSequenceError whenever the entry's \<^verbatim>\<open>joint_positions\<close> is a dictionary.
\<close>

theorem BlazePoseSequence_init_all_or_nothing:
  assumes "\<exists>fd \<in> set sequence. validate_pose_schema joint_position_names fd \<noteq> Inr True"
  shows "\<exists>pre bad post e. sequence = pre @ bad # post \<and>
           list_all (\<lambda>fd. validate_pose_schema joint_position_names fd = Inr True) pre \<and>
           validate_pose_schema joint_position_names bad = Inl e \<and>
           BlazePoseSequence_init sequence = Inl e \<and>
           ((\<forall>jp. map_of bad ''joint_positions'' = Some jp \<longrightarrow> is_dict jp)
              \<longrightarrow> (\<exists>msg. e = BlazePoseSequenceError msg))"
proof -
  from validate_frames_first_invalid [OF assms] obtain pre bad post e where
    *: "sequence = pre @ bad # post"
       "list_all (\<lambda>fd. validate_pose_schema joint_position_names fd = Inr True) pre"
       "validate_pose_schema joint_position_names bad = Inl e"
       "validate_frames joint_position_names sequence = Inl e"
    by blast
  have init: "BlazePoseSequence_init sequence = Inl e"
    using *(4) by (simp add: BlazePoseSequence_init_def)
  have kind: "(\<forall>jp. map_of bad ''joint_positions'' = Some jp \<longrightarrow> is_dict jp)
              \<longrightarrow> (\<exists>msg. e = BlazePoseSequenceError msg)"
    using validate_pose_schema_error [OF *(3)] by simp
  show ?thesis
    by (intro exI [where x = pre] exI [where x = bad] exI [where x = post]
              exI [where x = e] conjI) (rule *(1) *(2) *(3) init kind)+
qed

lemma validate_pose_schema_empty_frame:
  "validate_pose_schema names empty_frame = Inr True"
  by (simp add: validate_pose_schema_def empty_frame_def sequence_required_keys_def
      getitem_step)

lemma validate_pose_schema_frame_without_number:
  "validate_pose_schema names frame_without_number =
     Inl (BlazePoseSequenceError ''Validation error - frame_number is missing from frame data'')"
  by (simp add: validate_pose_schema_def frame_without_number_def sequence_required_keys_def)

theorem BlazePoseSequence_init_all_or_nothing_witness:
  "BlazePoseSequence_init [empty_frame, frame_without_number, empty_frame] =
     Inl (BlazePoseSequenceError ''Validation error - frame_number is missing from frame data'')"
  using BlazePoseSequence_init_all_or_nothing
          [of "[empty_frame, frame_without_number, empty_frame]"]
  by (simp add: BlazePoseSequence_init_def validate_pose_schema_empty_frame
      validate_pose_schema_frame_without_number)

section \<open>Validation of joint positions\<close>

lemma map_of_map_key:
  "map_of (map (\<lambda>n. (n, f n)) ns) k = (if k \<in> set ns then Some (f k) else None)"
  by (induction ns) auto

lemma map_fst_map_key: "map fst (map (\<lambda>n. (n, f n)) ns) = ns"
  by (induction ns) auto

lemma map_of_Some_key: "map_of d k = Some v \<Longrightarrow> k \<in> set (map fst d)"
  by (induction d) (auto split: if_splits)

lemma validate_joint_keys_dict:
  assumes "map_of kvs joint = Some (PDict r)"
  shows "validate_joint_keys (PDict kvs) joint keys =
     (case find (\<lambda>k. k \<notin> set (map fst r)) keys of
        None \<Rightarrow> Inr ()
      | Some k \<Rightarrow> Inl (BlazePoseFrameError (k @ '' missing from '' @ joint @ '' position data'')))"
  by (induction keys) (simp_all add: dict_getitem_def assms)

lemma find_None_subset: "find (\<lambda>k. k \<notin> A) keys = None \<longleftrightarrow> set keys \<subseteq> A"
  by (induction keys) auto

lemma find_Some_missing: "find (\<lambda>k. k \<notin> A) keys = Some k \<Longrightarrow> k \<in> set keys \<and> k \<notin> A"
  by (induction keys) (auto split: if_splits)

lemma validate_joint_names_step_ok:
  assumes "map_of kvs n = Some (PDict r)" and "set required_joint_keys \<subseteq> set (map fst r)"
  shows "validate_joint_names (PDict kvs) (n # ns) = validate_joint_names (PDict kvs) ns"
proof -
  have "n \<in> set (map fst kvs)"
    using assms(1) by (rule map_of_Some_key)
  moreover have "find (\<lambda>k. k \<notin> set (map fst r)) required_joint_keys = None"
    using assms(2) by (simp add: find_None_subset)
  ultimately show ?thesis
    by (simp add: validate_joint_keys_dict [OF assms(1)])
qed

lemma validate_joint_names_step_fail:
  assumes "map_of kvs n = Some (PDict r)"
    and "find (\<lambda>k. k \<notin> set (map fst r)) required_joint_keys = Some k"
  shows "validate_joint_names (PDict kvs) (n # ns) =
           Inl (BlazePoseFrameError (k @ '' missing from '' @ n @ '' position data''))"
proof -
  have "n \<in> set (map fst kvs)"
    using assms(1) by (rule map_of_Some_key)
  then show ?thesis
    using assms(2) by (simp add: validate_joint_keys_dict [OF assms(1)])
qed

lemma validate_joint_names_ok:
  assumes "\<forall>n \<in> set ns. \<exists>r. map_of kvs n = Some (PDict r) \<and>
             set required_joint_keys \<subseteq> set (map fst r)"
  shows "validate_joint_names (PDict kvs) ns = Inr True"
  using assms
proof (induction ns)
  case Nil
  show ?case by simp
next
  case (Cons n ns)
  then obtain r where r: "map_of kvs n = Some (PDict r)"
      "set required_joint_keys \<subseteq> set (map fst r)"
    by auto
  from Cons have "validate_joint_names (PDict kvs) ns = Inr True"
    by simp
  then show ?case
    by (simp only: validate_joint_names_step_ok [OF r])
qed

lemma validate_joint_names_missing_key:
  assumes "\<forall>n \<in> set ns. \<exists>r. map_of kvs n = Some (PDict r)"
    and "\<exists>n \<in> set ns. \<exists>r. map_of kvs n = Some (PDict r) \<and>
           \<not> set required_joint_keys \<subseteq> set (map fst r)"
  shows "\<exists>n k r. n \<in> set ns \<and> k \<in> set required_joint_keys \<and>
           map_of kvs n = Some (PDict r) \<and> k \<notin> set (map fst r) \<and>
           validate_joint_names (PDict kvs) ns =
             Inl (BlazePoseFrameError (k @ '' missing from '' @ n @ '' position data''))"
  using assms
proof (induction ns)
  case Nil
  then show ?case by simp
next
  case (Cons n ns)
  from Cons.prems(1) obtain r where r: "map_of kvs n = Some (PDict r)"
    by auto
  show ?case
  proof (cases "find (\<lambda>k. k \<notin> set (map fst r)) required_joint_keys")
    case (Some k)
    from find_Some_missing [OF Some] have k: "k \<in> set required_joint_keys" "k \<notin> set (map fst r)"
      by simp_all
    show ?thesis
      apply (rule exI [where x = n])
      apply (rule exI [where x = k])
      apply (rule exI [where x = r])
      apply (simp only: validate_joint_names_step_fail [OF r Some])
      apply (simp add: r k del: set_map)
      done
  next
    case None
    then have sub: "set required_joint_keys \<subseteq> set (map fst r)"
      by (simp add: find_None_subset)
    with Cons.prems(2) r have
      "\<exists>m \<in> set ns. \<exists>r. map_of kvs m = Some (PDict r) \<and>
           \<not> set required_joint_keys \<subseteq> set (map fst r)"
      by auto
    moreover from Cons.prems(1) have "\<forall>m \<in> set ns. \<exists>r. map_of kvs m = Some (PDict r)"
      by simp
    ultimately obtain m k r' where
      m: "m \<in> set ns" "k \<in> set required_joint_keys" "map_of kvs m = Some (PDict r')"
         "k \<notin> set (map fst r')"
         "validate_joint_names (PDict kvs) ns =
             Inl (BlazePoseFrameError (k @ '' missing from '' @ m @ '' position data''))"
      using Cons.IH by meson
    show ?thesis
      apply (rule exI [where x = m])
      apply (rule exI [where x = k])
      apply (rule exI [where x = r'])
      apply (simp only: validate_joint_names_step_ok [OF r sub])
      apply (simp add: m del: set_map)
      done
  qed
qed

lemma BlazePoseFrame_init_with_invalid_joints:
  assumes "set sequence_required_keys \<subseteq> set (map fst frame_data)"
    and "map_of frame_data ''joint_positions'' = Some jp" and "py_truthy jp"
    and "validate_joint_position_data jp = Inl e"
  shows "BlazePoseFrame_init_with plumbline frame_data = Inl e"
proof -
  from required_keys_present [OF assms(1)] assms(2) obtain fnum dims sid src where
    "map_of frame_data ''frame_number'' = Some fnum"
    "map_of frame_data ''joint_positions'' = Some jp"
    "map_of frame_data ''image_dimensions'' = Some dims"
    "map_of frame_data ''sequence_id'' = Some sid"
    "map_of frame_data ''sequence_source'' = Some src"
    by auto
  then show ?thesis
    using assms(3,4) by (simp add: BlazePoseFrame_init_with_def getitem_step)
qed

lemma check_required_keys_present:
  "set keys \<subseteq> set (map fst frame_data) \<Longrightarrow> check_required_keys keys frame_data = Inr ()"
  by (induction keys) simp_all

lemma check_joint_names_present:
  "set ns \<subseteq> set (map fst kvs) \<Longrightarrow> check_joint_names ns (PDict kvs) = Inr ()"
  by (induction ns) simp_all

lemma validate_pose_schema_names_present:
  assumes "set sequence_required_keys \<subseteq> set (map fst frame_data)"
    and "map_of frame_data ''joint_positions'' = Some (PDict kvs)"
    and "set names \<subseteq> set (map fst kvs)"
  shows "validate_pose_schema names frame_data = Inr True"
  unfolding validate_pose_schema_def getitem_step
  by (simp add: check_required_keys_present [OF assms(1)] assms(2)
        check_joint_names_present [OF assms(3)])

lemma BlazePoseSequence_init_single:
  "validate_pose_schema joint_position_names frame_data = Inr True \<Longrightarrow>
   BlazePoseSequence_init [frame_data] =
     Inr \<lparr> sequence_joint_positions = joint_position_names,
           sequence_data = [frame_data], frames = [] \<rparr>"
  by (simp add: BlazePoseSequence_init_def)

text \<open>
  C1 (as the code has it). An entry whose non-empty \<^verbatim>\<open>joint_positions\<close> holds a record
  for each of the 33 joint names passes \<^verbatim>\<open>validate_pose_schema\<close>, and so the
  construction of the sequence, even when a record lacks a coordinate key: the sequence
  validation looks at the joint names only. The missing key is found when the frame is
  built: \<^verbatim>\<open>BlazePoseFrame\<close> construction fails with a BlazePoseFrameError that names a
  missing key and its joint.
\<close>

theorem validate_pose_schema_ignores_coordinate_keys:
  assumes top: "set sequence_required_keys \<subseteq> set (map fst frame_data)"
    and jp: "map_of frame_data ''joint_positions'' = Some (PDict kvs)"
    and recs: "\<forall>n \<in> set joint_position_names. \<exists>r. map_of kvs n = Some (PDict r)"
    and missing: "\<exists>n \<in> set joint_position_names. \<exists>r. map_of kvs n = Some (PDict r) \<and>
                    \<not> set required_joint_keys \<subseteq> set (map fst r)"
  shows "validate_pose_schema joint_position_names frame_data = Inr True \<and>
         BlazePoseSequence_init [frame_data] =
           Inr \<lparr> sequence_joint_positions = joint_position_names,
                 sequence_data = [frame_data], frames = [] \<rparr> \<and>
         (\<exists>n k r. n \<in> set joint_position_names \<and> k \<in> set required_joint_keys \<and>
            map_of kvs n = Some (PDict r) \<and> k \<notin> set (map fst r) \<and>
            BlazePoseFrame_init_with plumbline frame_data =
              Inl (BlazePoseFrameError (k @ '' missing from '' @ n @ '' position data'')))"
proof -
  have names: "set joint_position_names \<subseteq> set (map fst kvs)"
  proof
    fix n assume "n \<in> set joint_position_names"
    with recs obtain r where "map_of kvs n = Some (PDict r)"
      by auto
    then show "n \<in> set (map fst kvs)"
      by (rule map_of_Some_key)
  qed
  have valid: "validate_pose_schema joint_position_names frame_data = Inr True"
    using top jp names by (rule validate_pose_schema_names_present)
  have "''nose'' \<in> set joint_position_names"
    by (simp add: joint_position_names_def)
  with names have "kvs \<noteq> []"
    by auto
  then have truthy: "py_truthy (PDict kvs)"
    by simp
  from validate_joint_names_missing_key [OF recs missing] obtain n k r where
    nk: "n \<in> set joint_position_names" "k \<in> set required_joint_keys"
        "map_of kvs n = Some (PDict r)" "k \<notin> set (map fst r)"
        "validate_joint_names (PDict kvs) joint_position_names =
           Inl (BlazePoseFrameError (k @ '' missing from '' @ n @ '' position data''))"
    by meson
  from nk(5) have "validate_joint_position_data (PDict kvs) =
           Inl (BlazePoseFrameError (k @ '' missing from '' @ n @ '' position data''))"
    by (simp add: validate_joint_position_data_def)
  from BlazePoseFrame_init_with_invalid_joints [OF top jp truthy this]
  have fails: "BlazePoseFrame_init_with plumbline frame_data =
      Inl (BlazePoseFrameError (k @ '' missing from '' @ n @ '' position data''))" .
  have third: "\<exists>n k r. n \<in> set joint_position_names \<and> k \<in> set required_joint_keys \<and>
            map_of kvs n = Some (PDict r) \<and> k \<notin> set (map fst r) \<and>
            BlazePoseFrame_init_with plumbline frame_data =
              Inl (BlazePoseFrameError (k @ '' missing from '' @ n @ '' position data''))"
    apply (rule exI [where x = n])
    apply (rule exI [where x = k])
    apply (rule exI [where x = r])
    apply (intro conjI)
        apply (rule nk(1))
       apply (rule nk(2))
      apply (rule nk(3))
     apply (rule nk(4))
    apply (rule fails)
    done
  from valid BlazePoseSequence_init_single [OF valid] third show ?thesis
    by (intro conjI)
qed

lemma validate_joint_names_first_missing:
  assumes "\<forall>m \<in> set pre. \<exists>r. map_of kvs m = Some (PDict r) \<and>
             set required_joint_keys \<subseteq> set (map fst r)"
    and "map_of kvs n = Some (PDict r)"
    and "find (\<lambda>k. k \<notin> set (map fst r)) required_joint_keys = Some k"
  shows "validate_joint_names (PDict kvs) (pre @ n # post) =
           Inl (BlazePoseFrameError (k @ '' missing from '' @ n @ '' position data''))"
  using assms(1)
proof (induction pre)
  case Nil
  show ?case
    by (simp only: append_Nil validate_joint_names_step_fail [OF assms(2,3)])
next
  case (Cons m pre)
  then obtain r' where r': "map_of kvs m = Some (PDict r')"
      "set required_joint_keys \<subseteq> set (map fst r')"
    by auto
  from Cons have "validate_joint_names (PDict kvs) (pre @ n # post) =
           Inl (BlazePoseFrameError (k @ '' missing from '' @ n @ '' position data''))"
    by simp
  then show ?case
    by (simp only: append_Cons validate_joint_names_step_ok [OF r'])
qed

lemma frame_with_joints_top:
  "set sequence_required_keys \<subseteq> set (map fst (frame_with_joints record_of))"
  by (simp add: frame_with_joints_def sequence_required_keys_def)

lemma frame_with_joints_jp:
  "map_of (frame_with_joints record_of) ''joint_positions'' =
     Some (PDict (map (\<lambda>n. (n, record_of n)) joint_position_names))"
  by (simp add: frame_with_joints_def)

text \<open>
  The frame whose \<^verbatim>\<open>left_knee\<close> record lacks \<^verbatim>\<open>z_normalized\<close> is accepted by the
  sequence validation.
\<close>

theorem validate_pose_schema_accepts_missing_coordinate:
  "validate_pose_schema joint_position_names frame_left_knee_missing_z = Inr True"
  unfolding frame_left_knee_missing_z_def
  by (rule validate_pose_schema_names_present
        [OF frame_with_joints_top frame_with_joints_jp])
     (simp add: map_fst_map_key)

lemma left_knee_split:
  "joint_position_names =
     [''nose'', ''left_eye_inner'', ''left_eye'', ''left_eye_outer'', ''right_eye_inner'',
      ''right_eye'', ''right_eye_outer'', ''left_ear'', ''right_ear'', ''mouth_left'',
      ''mouth_right'', ''left_shoulder'', ''right_shoulder'', ''left_elbow'',
      ''right_elbow'', ''left_wrist'', ''right_wrist'', ''left_pinky'', ''right_pinky'',
      ''left_index'', ''right_index'', ''left_thumb'', ''right_thumb'', ''left_hip'',
      ''right_hip''] @ ''left_knee'' #
     [''right_knee'', ''left_ankle'', ''right_anle'',
      ''left_heel'', ''right_heel'', ''left_foot_index'', ''right_foot_index'']"
  by (simp add: joint_position_names_def)

theorem validate_pose_schema_ignores_coordinate_keys_witness:
  "validate_pose_schema joint_position_names frame_left_knee_missing_z = Inr True \<and>
   BlazePoseFrame_init frame_left_knee_missing_z =
     Inl (BlazePoseFrameError ''z_normalized missing from left_knee position data'')"
proof -
  define record_of where
    "record_of = (\<lambda>n. if n = ''left_knee'' then left_knee_record else complete_joint_record)"
  define kvs where "kvs = map (\<lambda>n. (n, record_of n)) joint_position_names"
  have frame: "frame_left_knee_missing_z = frame_with_joints record_of"
    by (simp add: frame_left_knee_missing_z_def record_of_def)
  have top: "set sequence_required_keys \<subseteq> set (map fst frame_left_knee_missing_z)"
    unfolding frame by (rule frame_with_joints_top)
  have jp: "map_of frame_left_knee_missing_z ''joint_positions'' = Some (PDict kvs)"
    unfolding frame kvs_def by (rule frame_with_joints_jp)
  have lookup: "map_of kvs n = (if n \<in> set joint_position_names then Some (record_of n) else None)"
    for n unfolding kvs_def by (rule map_of_map_key)
  have knee_in: "''left_knee'' \<in> set joint_position_names"
    by (simp add: joint_position_names_def)
  have knee: "map_of kvs ''left_knee'' =
      Some (PDict [(''x'', PFloat (1 / 2)), (''y'', PFloat (1 / 4)), (''z'', PFloat (1 / 8)),
            (''x_normalized'', PFloat 960), (''y_normalized'', PFloat 270)])"
    by (simp add: lookup knee_in record_of_def left_knee_record_def)
  have other: "\<exists>r. map_of kvs n = Some (PDict r) \<and> set required_joint_keys \<subseteq> set (map fst r)"
    if "n \<in> set joint_position_names" "n \<noteq> ''left_knee''" for n
    using that
    by (simp add: lookup record_of_def complete_joint_record_def required_joint_keys_def)
  have recs: "\<forall>n \<in> set joint_position_names. \<exists>r. map_of kvs n = Some (PDict r)"
    by (simp add: lookup record_of_def complete_joint_record_def left_knee_record_def)
  have missing: "\<exists>n \<in> set joint_position_names. \<exists>r. map_of kvs n = Some (PDict r) \<and>
                    \<not> set required_joint_keys \<subseteq> set (map fst r)"
    by (rule bexI [OF _ knee_in]) (simp add: knee required_joint_keys_def)
  note general = validate_pose_schema_ignores_coordinate_keys
    [OF top jp recs missing, of get_plumbline_vector]
  have find_knee: "find (\<lambda>k. k \<notin> set (map fst
      [(''x'', PFloat (1 / 2)), (''y'', PFloat (1 / 4)), (''z'', PFloat (1 / 8)),
       (''x_normalized'', PFloat 960), (''y_normalized'', PFloat 270)])) required_joint_keys
      = Some ''z_normalized''"
    by (simp add: required_joint_keys_def)
  have before: "\<forall>m \<in> set [''nose'', ''left_eye_inner'', ''left_eye'', ''left_eye_outer'',
      ''right_eye_inner'', ''right_eye'', ''right_eye_outer'', ''left_ear'', ''right_ear'',
      ''mouth_left'', ''mouth_right'', ''left_shoulder'', ''right_shoulder'', ''left_elbow'',
      ''right_elbow'', ''left_wrist'', ''right_wrist'', ''left_pinky'', ''right_pinky'',
      ''left_index'', ''right_index'', ''left_thumb'', ''right_thumb'', ''left_hip'',
      ''right_hip'']. \<exists>r. map_of kvs m = Some (PDict r) \<and>
             set required_joint_keys \<subseteq> set (map fst r)"
  proof
    fix m
    assume m: "m \<in> set [''nose'', ''left_eye_inner'', ''left_eye'', ''left_eye_outer'',
      ''right_eye_inner'', ''right_eye'', ''right_eye_outer'', ''left_ear'', ''right_ear'',
      ''mouth_left'', ''mouth_right'', ''left_shoulder'', ''right_shoulder'', ''left_elbow'',
      ''right_elbow'', ''left_wrist'', ''right_wrist'', ''left_pinky'', ''right_pinky'',
      ''left_index'', ''right_index'', ''left_thumb'', ''right_thumb'', ''left_hip'',
      ''right_hip'']"
    then have "m \<in> set joint_position_names"
      unfolding left_knee_split set_append by (rule UnI1)
    moreover from m have "m \<noteq> ''left_knee''"
      by auto
    ultimately show "\<exists>r. map_of kvs m = Some (PDict r) \<and>
             set required_joint_keys \<subseteq> set (map fst r)"
      by (rule other)
  qed
  have "validate_joint_position_data (PDict kvs) =
      Inl (BlazePoseFrameError (''z_normalized'' @ '' missing from '' @ ''left_knee''
             @ '' position data''))"
    unfolding validate_joint_position_data_def left_knee_split
    by (rule validate_joint_names_first_missing [OF before knee find_knee])
  moreover have "py_truthy (PDict kvs)"
    by (simp add: kvs_def joint_position_names_def)
  ultimately have "BlazePoseFrame_init frame_left_knee_missing_z =
      Inl (BlazePoseFrameError (''z_normalized'' @ '' missing from '' @ ''left_knee''
             @ '' position data''))"
    unfolding BlazePoseFrame_init_def
    using BlazePoseFrame_init_with_invalid_joints [OF top jp] by simp
  with general show ?thesis
    by simp
qed

section \<open>Building the joints and the frame\<close>

lemma raw_coordinate_dict:
  assumes "map_of kvs joint = Some (PDict r)" and "map_of r key = Some v"
  shows "raw_coordinate (PDict kvs) joint key = Inr v"
  by (simp add: raw_coordinate_def dict_getitem_def assms)

lemma Joint_init_seven:
  "Joint_init n [(''image_dimensions'', dims), (''x'', vx), (''y'', vy), (''z'', vz),
                 (''x_normalized'', vxn), (''y_normalized'', vyn), (''z_normalized'', vzn)]
   = Inr \<lparr> joint_name = n, joint_x = vx, joint_y = vy, joint_z = vz,
           joint_x_normalized = vxn, joint_y_normalized = vyn, joint_z_normalized = vzn,
           joint_image_dimensions = dims \<rparr>"
  by (simp add: Joint_init_def joint_required_keys_def dict_getitem_def)

lemma complete_record_values:
  assumes "set required_joint_keys \<subseteq> set (map fst r)"
  shows "\<exists>vx vy vz vxn vyn vzn.
           map_of r ''x'' = Some vx \<and> map_of r ''y'' = Some vy \<and> map_of r ''z'' = Some vz \<and>
           map_of r ''x_normalized'' = Some vxn \<and> map_of r ''y_normalized'' = Some vyn \<and>
           map_of r ''z_normalized'' = Some vzn"
proof -
  have "''x'' \<in> set (map fst r)" "''y'' \<in> set (map fst r)" "''z'' \<in> set (map fst r)"
       "''x_normalized'' \<in> set (map fst r)" "''y_normalized'' \<in> set (map fst r)"
       "''z_normalized'' \<in> set (map fst r)"
    using assms by (auto simp: required_joint_keys_def)
  then show ?thesis
    by (meson map_of_present)
qed

lemma set_joint_positions_loop_step:
  assumes "map_of kvs n = Some (PDict r)" and "set required_joint_keys \<subseteq> set (map fst r)"
  shows "\<exists>j. joint_name j = n \<and> joint_image_dimensions j = dims \<and>
           map_of r ''x'' = Some (joint_x j) \<and> map_of r ''y'' = Some (joint_y j) \<and>
           map_of r ''z'' = Some (joint_z j) \<and>
           map_of r ''x_normalized'' = Some (joint_x_normalized j) \<and>
           map_of r ''y_normalized'' = Some (joint_y_normalized j) \<and>
           map_of r ''z_normalized'' = Some (joint_z_normalized j) \<and>
           set_joint_positions_loop (PDict kvs) dims (n # ns) acc =
             set_joint_positions_loop (PDict kvs) dims ns (dict_setitem acc n j)"
proof -
  from complete_record_values [OF assms(2)] obtain vx vy vz vxn vyn vzn where
    v: "map_of r ''x'' = Some vx" "map_of r ''y'' = Some vy" "map_of r ''z'' = Some vz"
       "map_of r ''x_normalized'' = Some vxn" "map_of r ''y_normalized'' = Some vyn"
       "map_of r ''z_normalized'' = Some vzn"
    by blast
  show ?thesis
    apply (rule exI [where x = "\<lparr> joint_name = n, joint_x = vx, joint_y = vy, joint_z = vz,
           joint_x_normalized = vxn, joint_y_normalized = vyn, joint_z_normalized = vzn,
           joint_image_dimensions = dims \<rparr>"])
    apply (simp add: v raw_coordinate_dict [OF assms(1)] Joint_init_seven)
    done
qed

lemma dict_setitem_keys:
  "set (map fst (dict_setitem d k v)) = insert k (set (map fst d))"
proof (induction d)
  case Nil
  show ?case by simp
next
  case (Cons p d)
  obtain k' v' where p: "p = (k', v')"
    by (cases p)
  from Cons show ?case
    by (cases "k' = k") (simp_all add: p insert_commute)
qed

lemma set_joint_positions_loop_ok:
  assumes "\<forall>n \<in> set ns. \<exists>r. map_of kvs n = Some (PDict r) \<and>
             set required_joint_keys \<subseteq> set (map fst r)"
  shows "\<exists>js. set_joint_positions_loop (PDict kvs) dims ns acc = Inr js \<and>
              set (map fst js) = set (map fst acc) \<union> set ns"
  using assms
proof (induction ns arbitrary: acc)
  case Nil
  show ?case by simp
next
  case (Cons n ns)
  then obtain r where r: "map_of kvs n = Some (PDict r)"
      "set required_joint_keys \<subseteq> set (map fst r)"
    by auto
  from set_joint_positions_loop_step [OF r, of dims ns acc] obtain j where
    j: "set_joint_positions_loop (PDict kvs) dims (n # ns) acc =
             set_joint_positions_loop (PDict kvs) dims ns (dict_setitem acc n j)"
    by blast
  from Cons.prems have "\<forall>n \<in> set ns. \<exists>r. map_of kvs n = Some (PDict r) \<and>
             set required_joint_keys \<subseteq> set (map fst r)"
    by simp
  from Cons.IH [OF this, of "dict_setitem acc n j"] obtain js where
    js: "set_joint_positions_loop (PDict kvs) dims ns (dict_setitem acc n j) = Inr js"
        "set (map fst js) = set (map fst (dict_setitem acc n j)) \<union> set ns"
    by blast
  have keys: "set (map fst (dict_setitem acc n j)) = insert n (set (map fst acc))"
    by (rule dict_setitem_keys)
  show ?case
    apply (rule exI [where x = js])
    apply (simp only: j js keys)
    apply auto
    done
qed

lemma generate_angle_measurements_with_returns_None:
  assumes "generate_angle_measurements_with plumbline self = Inr (self', returned)"
  shows "returned = AnglesNone \<and> has_joint_positions self' = has_joint_positions self"
proof (cases "has_joint_positions self")
  case False
  with assms show ?thesis
    by (simp add: generate_angle_measurements_with_def)
next
  case True
  show ?thesis
  proof (cases "plumbline self")
    case (Inl e)
    with assms True show ?thesis
      by (simp add: generate_angle_measurements_with_def)
  next
    case (Inr pl)
    with assms True show ?thesis
      by (auto simp: generate_angle_measurements_with_def)
  qed
qed

text \<open>What the constructor does once the five reads have succeeded.\<close>

lemma BlazePoseFrame_init_with_reads:
  assumes "map_of frame_data ''frame_number'' = Some fnum"
    and "map_of frame_data ''joint_positions'' = Some jp"
    and "map_of frame_data ''image_dimensions'' = Some dims"
    and "map_of frame_data ''sequence_id'' = Some sid"
    and "map_of frame_data ''sequence_source'' = Some src"
  shows "BlazePoseFrame_init_with plumbline frame_data =
    (if py_truthy jp then
       bind_err (validate_joint_position_data jp) (\<lambda>_.
       bind_err (set_joint_positions
          \<lparr> joints = [], angles = AnglesDict [], frame_number = fnum,
            has_joint_positions = True, image_dimensions = dims, sequence_id = sid,
            sequence_source = src, joint_positions_raw = Some jp,
            plumb_line_vector = None \<rparr>) (\<lambda>js.
       bind_err (generate_angle_measurements_with plumbline
          \<lparr> joints = js, angles = AnglesDict [], frame_number = fnum,
            has_joint_positions = True, image_dimensions = dims, sequence_id = sid,
            sequence_source = src, joint_positions_raw = Some jp,
            plumb_line_vector = None \<rparr>) (\<lambda>(self3, returned).
         Inr (self3\<lparr>angles := returned\<rparr>))))
     else Inr \<lparr> joints = [], angles = AnglesDict [], frame_number = fnum,
            has_joint_positions = False, image_dimensions = dims, sequence_id = sid,
            sequence_source = src, joint_positions_raw = None,
            plumb_line_vector = None \<rparr>)"
  by (simp add: BlazePoseFrame_init_with_def getitem_step assms)

lemma BlazePoseFrame_init_with_Inr_reads:
  assumes "BlazePoseFrame_init_with plumbline frame_data = Inr f"
  shows "\<exists>fnum jp dims sid src.
           map_of frame_data ''frame_number'' = Some fnum \<and>
           map_of frame_data ''joint_positions'' = Some jp \<and>
           map_of frame_data ''image_dimensions'' = Some dims \<and>
           map_of frame_data ''sequence_id'' = Some sid \<and>
           map_of frame_data ''sequence_source'' = Some src"
  using assms unfolding BlazePoseFrame_init_with_def getitem_step
  by (simp split: option.splits)

lemma BlazePoseFrame_init_with_angles:
  assumes "BlazePoseFrame_init_with plumbline frame_data = Inr f"
  shows "\<exists>jp. map_of frame_data ''joint_positions'' = Some jp \<and>
           has_joint_positions f = py_truthy jp \<and>
           angles f = (if py_truthy jp then AnglesNone else AnglesDict [])"
proof -
  from BlazePoseFrame_init_with_Inr_reads [OF assms] obtain fnum jp dims sid src where
    reads: "map_of frame_data ''frame_number'' = Some fnum"
           "map_of frame_data ''joint_positions'' = Some jp"
           "map_of frame_data ''image_dimensions'' = Some dims"
           "map_of frame_data ''sequence_id'' = Some sid"
           "map_of frame_data ''sequence_source'' = Some src"
    by blast
  note unf = BlazePoseFrame_init_with_reads [OF reads, of plumbline]
  have "has_joint_positions f = py_truthy jp \<and>
        angles f = (if py_truthy jp then AnglesNone else AnglesDict [])"
  proof (cases "py_truthy jp")
    case False
    with assms unf show ?thesis
      by auto
  next
    case True
    with assms unf obtain ok js self3 returned where
      steps: "validate_joint_position_data jp = Inr ok"
        "generate_angle_measurements_with plumbline
          \<lparr> joints = js, angles = AnglesDict [], frame_number = fnum,
            has_joint_positions = True, image_dimensions = dims, sequence_id = sid,
            sequence_source = src, joint_positions_raw = Some jp,
            plumb_line_vector = None \<rparr> = Inr (self3, returned)"
        "f = self3\<lparr>angles := returned\<rparr>"
      by (auto simp: bind_err_def split: sum.splits)
    from generate_angle_measurements_with_returns_None [OF steps(2)] steps(3) True
    show ?thesis
      by simp
  qed
  with reads(2) show ?thesis
    by blast
qed

lemma BlazePoseFrame_init_with_complete:
  assumes top: "set sequence_required_keys \<subseteq> set (map fst frame_data)"
    and jp: "map_of frame_data ''joint_positions'' = Some (PDict kvs)"
    and recs: "\<forall>n \<in> set joint_position_names. \<exists>r. map_of kvs n = Some (PDict r) \<and>
                 set required_joint_keys \<subseteq> set (map fst r)"
  shows "\<exists>fnum dims sid src js.
           set (map fst js) = set joint_position_names \<and>
           BlazePoseFrame_init_with plumbline frame_data =
             bind_err (plumbline
                \<lparr> joints = js, angles = AnglesDict [], frame_number = fnum,
                  has_joint_positions = True, image_dimensions = dims, sequence_id = sid,
                  sequence_source = src, joint_positions_raw = Some (PDict kvs),
                  plumb_line_vector = None \<rparr>)
               (\<lambda>pl. Inr \<lparr> joints = js, angles = AnglesNone, frame_number = fnum,
                  has_joint_positions = True, image_dimensions = dims, sequence_id = sid,
                  sequence_source = src, joint_positions_raw = Some (PDict kvs),
                  plumb_line_vector = Some pl \<rparr>)"
proof -
  from required_keys_present [OF top] jp obtain fnum dims sid src where
    reads: "map_of frame_data ''frame_number'' = Some fnum"
           "map_of frame_data ''joint_positions'' = Some (PDict kvs)"
           "map_of frame_data ''image_dimensions'' = Some dims"
           "map_of frame_data ''sequence_id'' = Some sid"
           "map_of frame_data ''sequence_source'' = Some src"
    by auto
  have "''nose'' \<in> set joint_position_names"
    by (simp add: joint_position_names_def)
  with recs obtain r where "map_of kvs ''nose'' = Some (PDict r)"
    by blast
  then have truthy: "py_truthy (PDict kvs)"
    by auto
  have valid: "validate_joint_position_data (PDict kvs) = Inr True"
    unfolding validate_joint_position_data_def
    using recs by (rule validate_joint_names_ok)
  from set_joint_positions_loop_ok [OF recs, of dims "[]"] obtain js where
    js: "set_joint_positions_loop (PDict kvs) dims joint_position_names [] = Inr js"
        "set (map fst js) = set joint_position_names"
    by auto
  have setj: "set_joint_positions
          \<lparr> joints = [], angles = AnglesDict [], frame_number = fnum,
            has_joint_positions = True, image_dimensions = dims, sequence_id = sid,
            sequence_source = src, joint_positions_raw = Some (PDict kvs),
            plumb_line_vector = None \<rparr> = Inr js"
    by (simp add: set_joint_positions_def js(1))
  have "BlazePoseFrame_init_with plumbline frame_data =
             bind_err (plumbline
                \<lparr> joints = js, angles = AnglesDict [], frame_number = fnum,
                  has_joint_positions = True, image_dimensions = dims, sequence_id = sid,
                  sequence_source = src, joint_positions_raw = Some (PDict kvs),
                  plumb_line_vector = None \<rparr>)
               (\<lambda>pl. Inr \<lparr> joints = js, angles = AnglesNone, frame_number = fnum,
                  has_joint_positions = True, image_dimensions = dims, sequence_id = sid,
                  sequence_source = src, joint_positions_raw = Some (PDict kvs),
                  plumb_line_vector = Some pl \<rparr>)"
    unfolding BlazePoseFrame_init_with_reads [OF reads]
    by (cases "plumbline \<lparr> joints = js, angles = AnglesDict [], frame_number = fnum,
                  has_joint_positions = True, image_dimensions = dims, sequence_id = sid,
                  sequence_source = src, joint_positions_raw = Some (PDict kvs),
                  plumb_line_vector = None \<rparr>")
       (simp_all add: truthy valid setj generate_angle_measurements_with_def del: py_truthy.simps)
  with js(2) show ?thesis
    by blast
qed

lemma complete_frame_records:
  "\<forall>n \<in> set joint_position_names.
     \<exists>r. map_of (map (\<lambda>n. (n, complete_joint_record)) joint_position_names) n = Some (PDict r) \<and>
         set required_joint_keys \<subseteq> set (map fst r)"
  by (simp add: map_of_map_key complete_joint_record_def required_joint_keys_def)

text \<open>
  C3. For a fully valid record with joints the constructor does not leave a dictionary
  of angles behind. As written it fails at the plumb line, whose body does not parse;
  and whatever segment pair \<open>pl\<close> a working plumb-line function returned, the frame
  built has its 33 joints and \<^verbatim>\<open>angles\<close> is None, the value returned by
  \<^verbatim>\<open>generate_angle_measurements\<close>, which has no return statement.
\<close>

theorem BlazePoseFrame_init_angles_not_a_dict:
  "BlazePoseFrame_init complete_frame = Inl (SyntaxError unmatched_bracket_message) \<and>
   (\<exists>f. BlazePoseFrame_init_with (\<lambda>self. Inr pl) complete_frame = Inr f \<and>
        has_joint_positions f \<and> set (map fst (joints f)) = set joint_position_names \<and>
        angles f = AnglesNone)"
proof -
  have top: "set sequence_required_keys \<subseteq> set (map fst complete_frame)"
    unfolding complete_frame_def by (rule frame_with_joints_top)
  have jp: "map_of complete_frame ''joint_positions'' =
      Some (PDict (map (\<lambda>n. (n, complete_joint_record)) joint_position_names))"
    unfolding complete_frame_def by (rule frame_with_joints_jp)
  note shape = BlazePoseFrame_init_with_complete [OF top jp complete_frame_records]
  from shape [of get_plumbline_vector]
  have first: "BlazePoseFrame_init complete_frame = Inl (SyntaxError unmatched_bracket_message)"
    by (auto simp: BlazePoseFrame_init_def get_plumbline_vector_def)
  from shape [of "\<lambda>self. Inr pl"]
  have second: "\<exists>f. BlazePoseFrame_init_with (\<lambda>self. Inr pl) complete_frame = Inr f \<and>
        has_joint_positions f \<and> set (map fst (joints f)) = set joint_position_names \<and>
        angles f = AnglesNone"
    by auto
  from first second show ?thesis
    by (rule conjI)
qed

theorem BlazePoseFrame_init_angles_not_a_dict_witness:
  "\<exists>f. BlazePoseFrame_init_with
          (\<lambda>self. Inr (((PFloat 0, PFloat 0, PFloat 0), (PFloat 0, PFloat 1, PFloat 0)),
                       ((PFloat 0, PFloat 0, PFloat 0), (PFloat 0, PFloat 1080, PFloat 0))))
          complete_frame = Inr f \<and>
       has_joint_positions f \<and> angles f = AnglesNone"
  using BlazePoseFrame_init_angles_not_a_dict
    [of "(((PFloat 0, PFloat 0, PFloat 0), (PFloat 0, PFloat 1, PFloat 0)),
          ((PFloat 0, PFloat 0, PFloat 0), (PFloat 0, PFloat 1080, PFloat 0)))"]
  by blast

section \<open>Frame generation\<close>









section \<open>Properties of the vector helpers\<close>

lemma joint_attr_Some:
  "map_of (joints self) n = Some j \<Longrightarrow> joint_attr self n attr = Inr (attr j)"
  by (simp add: joint_attr_def)

text \<open>
  C5. \<^verbatim>\<open>get_vector(j1, j2)\<close> does not return the segment from j1 to j2: both
  endpoints of the first segment are the raw coordinates of j1, and both endpoints of
  the second are the raw coordinates of j2; no normalized coordinate is read.
\<close>

theorem get_vector_repeats_endpoints:
  assumes "map_of (joints self) joint_name1 = Some a"
    and "map_of (joints self) joint_name2 = Some b"
  shows "get_vector self joint_name1 joint_name2 =
           Inr (((joint_x a, joint_y a, joint_z a), (joint_x a, joint_y a, joint_z a)),
                ((joint_x b, joint_y b, joint_z b), (joint_x b, joint_y b, joint_z b)))"
  by (simp add: get_vector_def joint_attr_Some [OF assms(1)] joint_attr_Some [OF assms(2)])

theorem get_vector_repeats_endpoints_witness:
  "get_vector example_pose ''left_shoulder'' ''left_elbow'' =
     Inr (((PFloat 1, PFloat 2, PFloat 3), (PFloat 1, PFloat 2, PFloat 3)),
          ((PFloat 4, PFloat 5, PFloat 6), (PFloat 4, PFloat 5, PFloat 6)))"
proof -
  have "''left_shoulder'' \<in> set joint_position_names" "''left_elbow'' \<in> set joint_position_names"
    by (simp_all add: joint_position_names_def)
  then have a: "map_of (joints example_pose) ''left_shoulder'' = Some (example_joint ''left_shoulder'')"
    and b: "map_of (joints example_pose) ''left_elbow'' = Some (example_joint ''left_elbow'')"
    by (simp_all add: example_pose_def map_of_map_key)
  from get_vector_repeats_endpoints [OF a b] show ?thesis
    by (simp add: example_joint_def)
qed

text \<open>
  C4. \<^verbatim>\<open>get_plumbline_vector\<close> returns no segment: each of the three statements for
  the normalized shoulder midpoint closes a bracket that was never opened (the three
  for the hip midpoint are balanced), so the function is a syntax error.
\<close>

theorem get_plumbline_vector_unmatched_bracket:
  "list_all (\<lambda>line. bracket_scan 0 line = None) plumbline_shoulder_lines \<and>
   list_all (\<lambda>line. bracket_scan 0 line = Some 0) plumbline_hip_lines \<and>
   get_plumbline_vector self = Inl (SyntaxError unmatched_bracket_message)"
  by (simp add: plumbline_shoulder_lines_def plumbline_hip_lines_def get_plumbline_vector_def)

section \<open>Properties of the angle computation\<close>

lemma sum_squares_nonneg: "0 \<le> (\<Sum>c\<leftarrow>v. c * (c::real))"
  by (induction v) simp_all



lemma linalg_norm_sqrt: "linalg_norm v = sqrt (\<Sum>c\<leftarrow>v. c\<^sup>2)"
  by (simp add: linalg_norm_def power2_eq_square)

lemma linalg_norm_square: "linalg_norm v * linalg_norm v = (\<Sum>c\<leftarrow>v. c * c)"
  by (simp add: linalg_norm_def sum_squares_nonneg)

lemma unit_vector_nonzero:
  "linalg_norm v \<noteq> 0 \<Longrightarrow> unit_vector v = map Fin (spec_unit v)"
  by (simp add: unit_vector_def spec_unit_def linalg_norm_sqrt)

lemma dot_sum_Fin: "dot_sum (map Fin a) (map Fin b) = Fin (spec_dot a b)"
proof (induction a arbitrary: b)
  case Nil
  show ?case by (simp add: spec_dot_def)
next
  case (Cons x a)
  show ?case
  proof (cases b)
    case Nil
    then show ?thesis by (simp add: spec_dot_def)
  next
    case (Cons y b')
    with Cons.IH [of b'] show ?thesis
      by (simp add: spec_dot_def)
  qed
qed

lemma clamp_swap: "min (max d (- 1)) 1 = max (- 1) (min 1 (d::real))"
  by (simp add: min_def max_def)

lemma angle_between_nonzero:
  assumes "length u = length v" and "linalg_norm u \<noteq> 0" and "linalg_norm v \<noteq> 0"
  shows "angle_between s1 s2 (Some u) (Some v) = Inr (Fin (spec_angle u v))"
proof -
  have "length (spec_unit u) = length (spec_unit v)"
    using assms(1) by (simp add: spec_unit_def)
  then have "np_dot (map Fin (spec_unit u)) (map Fin (spec_unit v)) =
          Inr (Fin (spec_dot (spec_unit u) (spec_unit v)))"
    by (simp only: np_dot_def dot_sum_Fin length_map) simp
  then have "np_dot (unit_vector u) (unit_vector v) =
          Inr (Fin (spec_dot (spec_unit u) (spec_unit v)))"
    by (simp only: unit_vector_nonzero [OF assms(2)] unit_vector_nonzero [OF assms(3)])
  then show ?thesis
    by (simp add: angle_between_def spec_angle_def clamp_swap)
qed

lemma dot_sum_NaN_left: "v \<noteq> [] \<Longrightarrow> b \<noteq> [] \<Longrightarrow> dot_sum (map (\<lambda>c. NaN) v) b = NaN"
  by (cases v; cases b) simp_all

lemma fmul_NaN_right: "fmul a NaN = NaN"
  by (cases a) simp_all

lemma dot_sum_NaN_right: "v \<noteq> [] \<Longrightarrow> a \<noteq> [] \<Longrightarrow> dot_sum a (map (\<lambda>c. NaN) v) = NaN"
  by (cases v; cases a) (simp_all add: fmul_NaN_right)

lemma unit_vector_length: "length (unit_vector v) = length v"
  by (simp add: unit_vector_def)

lemma angle_between_zero:
  assumes "length u = length v" and "u \<noteq> []"
    and "linalg_norm u = 0 \<or> linalg_norm v = 0"
  shows "angle_between s1 s2 (Some u) (Some v) = Inr NaN"
proof -
  from assms(1,2) have v: "v \<noteq> []"
    by auto
  have ne: "unit_vector u \<noteq> []" "unit_vector v \<noteq> []"
    using assms(2) v by (simp_all add: unit_vector_def)
  have "dot_sum (unit_vector u) (unit_vector v) = NaN"
  proof (cases "linalg_norm u = 0")
    case True
    then have "unit_vector u = map (\<lambda>c. NaN) u"
      by (simp add: unit_vector_def)
    with dot_sum_NaN_left [OF assms(2) ne(2)] show ?thesis
      by simp
  next
    case False
    with assms(3) have "unit_vector v = map (\<lambda>c. NaN) v"
      by (simp add: unit_vector_def)
    with dot_sum_NaN_right [OF v ne(1)] show ?thesis
      by simp
  qed
  then show ?thesis
    using assms(1) by (simp add: angle_between_def np_dot_def unit_vector_length)
qed

lemma spec_dot_scaled:
  "spec_dot (map (\<lambda>c. c / a) u) (map (\<lambda>c. c / b) v) = spec_dot u v / (a * b)"
proof (induction u arbitrary: v)
  case Nil
  show ?case by (simp add: spec_dot_def)
next
  case (Cons x u)
  show ?case
  proof (cases v)
    case Nil
    then show ?thesis by (simp add: spec_dot_def)
  next
    case (Cons y v')
    from Cons.IH [of v'] have
      "(\<Sum>(x, y)\<leftarrow>zip (map (\<lambda>c. c / a) u) (map (\<lambda>c. c / b) v'). x * y) =
         (\<Sum>(x, y)\<leftarrow>zip u v'. x * y) / (a * b)"
      by (simp add: spec_dot_def)
    then show ?thesis
      using Cons by (simp add: spec_dot_def add_divide_distrib)
  qed
qed

lemma spec_dot_units:
  "spec_dot (spec_unit u) (spec_unit v) = spec_dot u v / (linalg_norm u * linalg_norm v)"
  by (simp add: spec_unit_def spec_dot_scaled linalg_norm_sqrt)

lemma spec_dot_self: "spec_dot v v = linalg_norm v * linalg_norm v"
  by (simp add: linalg_norm_square spec_dot_def zip_same_conv_map o_def)



lemma spec_angle_same: "linalg_norm v \<noteq> 0 \<Longrightarrow> spec_angle v v = 0"
  unfolding spec_angle_def spec_dot_units by (simp add: spec_dot_self)






text \<open>
  A non-zero vector along the third axis has a zero projection on the first two: the
  two-dimensional angle is then nan, while the three-dimensional one is defined.
\<close>

lemma Angle_init_vertical:
  "\<exists>a. Angle_init name [0, 0, 1] [0, 0, 1] = Inr a \<and> angle_2d a = NaN \<and> angle_3d a = Fin 0"
proof -
  have two: "angle_between [0, 0, 1] [0, 0, 1] (Some [0, 0]) (Some [0, 0]) = Inr NaN"
    by (rule angle_between_zero) (simp_all add: linalg_norm_def)
  have three: "angle_between [0, 0, 1] [0, 0, 1] (Some [0, 0, 1]) (Some [0, 0, 1]) =
      Inr (Fin (spec_angle [0, 0, 1] [0, 0, 1]))"
    by (rule angle_between_nonzero) (simp_all add: linalg_norm_def)
  have "spec_angle [0, 0, 1] [0, 0, 1] = 0"
    by (rule spec_angle_same) (simp add: linalg_norm_def)
  with two three show ?thesis
    by (simp add: Angle_init_def)
qed

end
